theory Spec2Isabelle
  imports Main "HOL-Library.Word"
begin

unbundle bit_operations_syntax

section \<open>JavaScript strings\<close>

text \<open>
  A JavaScript string is a sequence of UTF-16 code units. \<open>length\<close>, \<open>slice\<close>,
  \<open>includes\<close>, \<open>replace\<close> and \<open>trim\<close> all work on code units, so the model does too.
\<close>

type_synonym code_unit = "16 word"
type_synonym jsstring = "code_unit list"
type_synonym byte = "8 word"

text \<open>String literals of the source, which are all ASCII.\<close>

definition js :: "string \<Rightarrow> jsstring" where
  "js s = map of_char s"

text \<open>
  \<open>String.prototype.trim\<close> removes leading and trailing WhiteSpace and LineTerminator
  code units (ECMA-262): TAB, VT, FF, the Unicode space separators, ZWNBSP, LF, CR, LS, PS.
\<close>

definition isWhiteSpace :: "code_unit \<Rightarrow> bool" where
  "isWhiteSpace c \<longleftrightarrow>
     c = 0x0009 \<or> c = 0x000A \<or> c = 0x000B \<or> c = 0x000C \<or> c = 0x000D \<or> c = 0x0020 \<or>
     c = 0x00A0 \<or> c = 0x1680 \<or> (0x2000 \<le> c \<and> c \<le> 0x200A) \<or> c = 0x2028 \<or> c = 0x2029 \<or>
     c = 0x202F \<or> c = 0x205F \<or> c = 0x3000 \<or> c = 0xFEFF"

definition trim :: "jsstring \<Rightarrow> jsstring" where
  "trim s = rev (dropWhile isWhiteSpace (rev (dropWhile isWhiteSpace s)))"

text \<open>\<open>s.includes(pat)\<close>: \<open>pat\<close> occurs in \<open>s\<close> as a contiguous run.\<close>

fun includes_str :: "'a list \<Rightarrow> 'a list \<Rightarrow> bool" where
  "includes_str [] pat = (pat = [])"
| "includes_str (c # s) pat = (take (length pat) (c # s) = pat \<or> includes_str s pat)"

text \<open>\<open>s.replace(pat, rep)\<close> with a string pattern: only the first occurrence is replaced.\<close>

fun replace :: "'a list \<Rightarrow> 'a list \<Rightarrow> 'a list \<Rightarrow> 'a list" where
  "replace [] pat rep = (if pat = [] then rep else [])"
| "replace (c # s) pat rep =
     (if take (length pat) (c # s) = pat then rep @ drop (length pat) (c # s)
      else c # replace s pat rep)"

section \<open>Data model (types/chat.ts and the gateway's request types)\<close>

datatype ChatRole = User | Assistant

record ChatImage =
  mimeType :: jsstring
  data :: jsstring
  name :: jsstring

record ChatMessage =
  m_id :: jsstring
  m_role :: ChatRole
  m_content :: jsstring
  m_image :: "ChatImage option"

record ChatSession =
  c_id :: jsstring
  c_title :: jsstring
  c_createdAt :: int
  c_updatedAt :: int
  c_messages :: "ChatMessage list"

text \<open>The gateway's \<open>RequestMessage\<close>: a chat message without its id.\<close>

record RequestMessage =
  r_role :: ChatRole
  r_content :: jsstring
  r_image :: "ChatImage option"

section \<open>Gateway: transcript translation\<close>

datatype part = Text jsstring | InlineData jsstring jsstring

record gemini_content =
  g_role :: string
  g_parts :: "part list"

definition buildGeminiContents :: "RequestMessage list \<Rightarrow> gemini_content list" where
  "buildGeminiContents messages =
     map (\<lambda>message.
            \<lparr> g_role = (if r_role message = Assistant then ''model'' else ''user''),
              g_parts =
                (if length (trim (r_content message)) > 0 then [Text (r_content message)] else []) @
                (case r_image message of
                   Some im \<Rightarrow> [InlineData (mimeType im) (data im)]
                 | None \<Rightarrow> []) \<rparr>)
         (filter (\<lambda>message. length (trim (r_content message)) > 0 \<or> r_image message \<noteq> None)
                 messages)"

section \<open>Client: session titles\<close>

definition deriveTitle :: "ChatMessage list \<Rightarrow> jsstring" where
  "deriveTitle messages =
     (case find (\<lambda>message. m_role message = User) messages of
        None \<Rightarrow> js ''New Chat''
      | Some firstUserMessage \<Rightarrow>
          (let firstText = trim (m_content firstUserMessage) in
           if firstText \<noteq> [] then take 50 firstText
           else (case m_image firstUserMessage of
                   Some im \<Rightarrow> js ''Image: '' @ name im
                 | None \<Rightarrow> js ''New Chat'')))"

section \<open>UTF-8 text encoding and decoding (platform \<open>TextEncoder\<close> / \<open>TextDecoder\<close>)\<close>

text \<open>
  Both classes are platform primitives. They are modelled after the WHATWG Encoding
  Standard: the UTF-8 decoder is the standard's byte handler with its five state variables,
  run in error mode "replacement" (the constructor is called without \<open>fatal\<close>), and
  \<open>decode\<close> is the standard's algorithm with its "do not flush" and "BOM seen" flags
  (\<open>ignoreBOM\<close> is not set either).
\<close>

record utf8_decoder =
  code_point :: nat
  bytes_seen :: nat
  bytes_needed :: nat
  lower_boundary :: byte
  upper_boundary :: byte

definition utf8_decoder_new :: utf8_decoder where
  "utf8_decoder_new =
     \<lparr> code_point = 0, bytes_seen = 0, bytes_needed = 0,
       lower_boundary = 0x80, upper_boundary = 0xBF \<rparr>"

text \<open>The handler's step for a byte read while no sequence is open (bytes needed is 0).
  The result is the new state and the code points emitted; an error emits U+FFFD.\<close>

definition utf8_lead :: "utf8_decoder \<Rightarrow> byte \<Rightarrow> utf8_decoder \<times> nat list" where
  "utf8_lead d b =
     (if b \<le> 0x7F then (d, [unat b])
      else if 0xC2 \<le> b \<and> b \<le> 0xDF then
        (d\<lparr> bytes_needed := 1, code_point := unat (b AND 0x1F) \<rparr>, [])
      else if 0xE0 \<le> b \<and> b \<le> 0xEF then
        (d\<lparr> lower_boundary := (if b = 0xE0 then 0xA0 else lower_boundary d),
            upper_boundary := (if b = 0xED then 0x9F else upper_boundary d),
            bytes_needed := 2, code_point := unat (b AND 0x0F) \<rparr>, [])
      else if 0xF0 \<le> b \<and> b \<le> 0xF4 then
        (d\<lparr> lower_boundary := (if b = 0xF0 then 0x90 else lower_boundary d),
            upper_boundary := (if b = 0xF4 then 0x8F else upper_boundary d),
            bytes_needed := 3, code_point := unat (b AND 0x07) \<rparr>, [])
      else (d, [0xFFFD]))"

text \<open>The handler on one byte. A byte outside the expected range ends the open sequence
  with an error, is put back on the queue and is read again by the reset decoder.\<close>

definition utf8_handler :: "utf8_decoder \<Rightarrow> byte \<Rightarrow> utf8_decoder \<times> nat list" where
  "utf8_handler d b =
     (if bytes_needed d = 0 then utf8_lead d b
      else if b < lower_boundary d \<or> upper_boundary d < b then
        (let (d', out) = utf8_lead utf8_decoder_new b in (d', 0xFFFD # out))
      else
        (let d1 = d\<lparr> lower_boundary := 0x80, upper_boundary := 0xBF,
                      code_point := push_bit 6 (code_point d) OR unat (b AND 0x3F),
                      bytes_seen := bytes_seen d + 1 \<rparr>
         in if bytes_seen d1 \<noteq> bytes_needed d1 then (d1, [])
            else (d1\<lparr> code_point := 0, bytes_needed := 0, bytes_seen := 0 \<rparr>,
                  [code_point d1])))"

text \<open>The handler on end-of-queue, reached only when \<open>decode\<close> flushes.\<close>

definition utf8_end_of_queue :: "utf8_decoder \<Rightarrow> utf8_decoder \<times> nat list" where
  "utf8_end_of_queue d =
     (if bytes_needed d \<noteq> 0 then (d\<lparr> bytes_needed := 0 \<rparr>, [0xFFFD]) else (d, []))"

fun utf8_run :: "utf8_decoder \<Rightarrow> byte list \<Rightarrow> utf8_decoder \<times> nat list" where
  "utf8_run d [] = (d, [])"
| "utf8_run d (b # bs) =
     (let (d1, out1) = utf8_handler d b;
          (d2, out2) = utf8_run d1 bs
      in (d2, out1 @ out2))"

text \<open>A scalar value as the code units of a JavaScript string.\<close>

definition code_point_units :: "nat \<Rightarrow> jsstring" where
  "code_point_units cp =
     (if cp < 0x10000 then [of_nat cp]
      else [of_nat (0xD800 + (cp - 0x10000) div 0x400),
            of_nat (0xDC00 + (cp - 0x10000) mod 0x400)])"

text \<open>Serialising the decoded scalar values: the first one ever produced by the decoder
  is dropped when it is the byte order mark.\<close>

definition serialize :: "bool \<Rightarrow> nat list \<Rightarrow> bool \<times> jsstring" where
  "serialize seen items =
     (case items of
        [] \<Rightarrow> (seen, [])
      | item # rest \<Rightarrow>
          (True, concat (map code_point_units
                   (if \<not> seen \<and> item = 0xFEFF then rest else item # rest))))"

record TextDecoder =
  decoder :: utf8_decoder
  bom_seen :: bool
  do_not_flush :: bool

definition TextDecoder_new :: TextDecoder where
  "TextDecoder_new = \<lparr> decoder = utf8_decoder_new, bom_seen = False, do_not_flush = False \<rparr>"

text \<open>\<open>decoder.decode(input, { stream })\<close>.\<close>

definition decode :: "TextDecoder \<Rightarrow> byte list \<Rightarrow> bool \<Rightarrow> TextDecoder \<times> jsstring" where
  "decode td bytes stream =
     (let td1 = (if do_not_flush td then td
                 else td\<lparr> decoder := utf8_decoder_new, bom_seen := False \<rparr>);
          (d2, out2) = utf8_run (decoder td1) bytes;
          (d3, out3) = (if stream then (d2, []) else utf8_end_of_queue d2);
          (seen, text) = serialize (bom_seen td1) (out2 @ out3)
      in (td1\<lparr> decoder := d3, bom_seen := seen, do_not_flush := stream \<rparr>, text))"

text \<open>\<open>TextEncoder.encode\<close>: the string's scalar values (an unpaired surrogate becomes
  U+FFFD), each encoded in UTF-8.\<close>

definition is_lead_surrogate :: "code_unit \<Rightarrow> bool" where
  "is_lead_surrogate c \<longleftrightarrow> 0xD800 \<le> c \<and> c \<le> 0xDBFF"

definition is_trail_surrogate :: "code_unit \<Rightarrow> bool" where
  "is_trail_surrogate c \<longleftrightarrow> 0xDC00 \<le> c \<and> c \<le> 0xDFFF"

fun scalar_values :: "jsstring \<Rightarrow> nat list" where
  "scalar_values [] = []"
| "scalar_values [c] =
     [if is_lead_surrogate c \<or> is_trail_surrogate c then 0xFFFD else unat c]"
| "scalar_values (c # c' # s) =
     (if is_lead_surrogate c \<and> is_trail_surrogate c' then
        (0x10000 + (unat c - 0xD800) * 0x400 + (unat c' - 0xDC00)) # scalar_values s
      else (if is_lead_surrogate c \<or> is_trail_surrogate c then 0xFFFD else unat c)
           # scalar_values (c' # s))"

definition utf8_encode_code_point :: "nat \<Rightarrow> byte list" where
  "utf8_encode_code_point cp =
     (if cp < 0x80 then [of_nat cp]
      else if cp < 0x800 then [of_nat (0xC0 + cp div 0x40), of_nat (0x80 + cp mod 0x40)]
      else if cp < 0x10000 then
        [of_nat (0xE0 + cp div 0x1000), of_nat (0x80 + cp div 0x40 mod 0x40),
         of_nat (0x80 + cp mod 0x40)]
      else
        [of_nat (0xF0 + cp div 0x40000), of_nat (0x80 + cp div 0x1000 mod 0x40),
         of_nat (0x80 + cp div 0x40 mod 0x40), of_nat (0x80 + cp mod 0x40)])"

definition TextEncoder_encode :: "jsstring \<Rightarrow> byte list" where
  "TextEncoder_encode s = concat (map utf8_encode_code_point (scalar_values s))"


section \<open>Gateway: model resolution\<close>

text \<open>Every outbound call of the gateway is recorded, in order.\<close>

datatype upstream_call = ListModels | GenerateContentStream jsstring

datatype error =
    FailedToListModels nat
  | FetchFailed
  | InvalidJson
  | UpstreamError jsstring

record model_descriptor =
  md_name :: "jsstring option"
  md_supportedGenerationMethods :: "jsstring list option"

text \<open>\<open>ListModelsResponse\<close>: its only field, \<open>models\<close>, is optional.\<close>

type_synonym ListModelsResponse = "model_descriptor list option"

text \<open>What the listing \<open>fetch\<close> does: it rejects (transport error), or it answers with a
  status and a body whose \<open>json()\<close> gives a payload or rejects (\<open>None\<close>).\<close>

datatype listing_fetch =
    ListingRejects
  | ListingResponse nat "ListModelsResponse option"

definition PREFERRED_MODEL_ORDER :: "jsstring list" where
  "PREFERRED_MODEL_ORDER =
     [js ''gemini-1.5-pro-latest'', js ''gemini-1.5-flash-latest'', js ''gemini-pro'']"

definition CACHE_DURATION_MS :: int where
  "CACHE_DURATION_MS = 60 * 60 * 1000"

text \<open>The module-level variables \<open>cachedModels\<close> and \<open>lastModelFetchTime\<close>.\<close>

record model_cache =
  cachedModels :: "jsstring list"
  lastModelFetchTime :: int

definition model_cache_init :: model_cache where
  "model_cache_init = \<lparr> cachedModels = [], lastModelFetchTime = 0 \<rparr>"

text \<open>The local \<open>modelIds\<close> of \<open>getAvailableModels\<close>: the models advertising
  \<open>generateContent\<close>, their names without the first \<open>models/\<close>, undefined and empty
  names removed.\<close>

definition modelIds_of :: "ListModelsResponse \<Rightarrow> jsstring list" where
  "modelIds_of payload =
     (case payload of
        None \<Rightarrow> []
      | Some models \<Rightarrow>
          List.map_filter
            (\<lambda>nm. case nm of None \<Rightarrow> None | Some n \<Rightarrow> if n \<noteq> [] then Some n else None)
            (map (\<lambda>model. map_option (\<lambda>n. replace n (js ''models/'') []) (md_name model))
               (filter (\<lambda>model. case md_supportedGenerationMethods model of
                                   None \<Rightarrow> False
                                 | Some methods \<Rightarrow> js ''generateContent'' \<in> set methods)
                       models)))"

text \<open>\<open>getAvailableModels\<close>, given what the listing call would answer and the value of
  \<open>Date.now()\<close>. It returns the list or the error thrown, the cache afterwards and the
  calls made.\<close>

definition getAvailableModels ::
  "listing_fetch \<Rightarrow> int \<Rightarrow> model_cache \<Rightarrow> (error + jsstring list) \<times> model_cache \<times> upstream_call list"
where
  "getAvailableModels listing now cache =
     (if length (cachedModels cache) > 0 \<and> now - lastModelFetchTime cache < CACHE_DURATION_MS
      then (Inr (cachedModels cache), cache, [])
      else
        (case listing of
           ListingRejects \<Rightarrow> (Inl FetchFailed, cache, [ListModels])
         | ListingResponse status body \<Rightarrow>
             if \<not> (200 \<le> status \<and> status \<le> 299)
             then (Inl (FailedToListModels status), cache, [ListModels])
             else
               (case body of
                  None \<Rightarrow> (Inl InvalidJson, cache, [ListModels])
                | Some payload \<Rightarrow>
                    (let modelIds = modelIds_of payload;
                         ordered = filter (\<lambda>name. name \<in> set modelIds) PREFERRED_MODEL_ORDER;
                         remaining =
                           filter (\<lambda>name. name \<notin> set ordered \<and>
                                     \<not> includes_str name (js ''embedding'')) modelIds;
                         allAvailableModels = ordered @ remaining
                     in (Inr allAvailableModels,
                         \<lparr> cachedModels = allAvailableModels, lastModelFetchTime = now \<rparr>,
                         [ListModels])))))"

section \<open>Gateway: generation with fallback\<close>

text \<open>What the upstream's stream yields: the texts of its chunks, and whether iterating
  fails after them.\<close>

record upstream_stream =
  u_texts :: "jsstring list"
  u_fails :: bool

text \<open>The upstream's \<open>generateContentStream\<close> for a model name and contents: it throws
  or opens a stream. The fixed system instruction and generation config are part of it.\<close>

type_synonym generation = "jsstring \<Rightarrow> gemini_content list \<Rightarrow> error + upstream_stream"

record http_stream =
  chunks :: "byte list list"
  errored :: bool

datatype response_body = JsonBody "(string \<times> string) list" | StreamBody http_stream

record response =
  res_status :: nat
  res_headers :: "(string \<times> string) list"
  res_body :: response_body

definition NextResponse_json :: "(string \<times> string) list \<Rightarrow> nat \<Rightarrow> response" where
  "NextResponse_json obj status =
     \<lparr> res_status = status, res_headers = [(''Content-Type'', ''application/json'')],
       res_body = JsonBody obj \<rparr>"

definition createStreamResponse ::
  "generation \<Rightarrow> RequestMessage list \<Rightarrow> jsstring \<Rightarrow> error + response"
where
  "createStreamResponse generateContentStream messages modelName =
     (case generateContentStream modelName (buildGeminiContents messages) of
        Inl e \<Rightarrow> Inl e
      | Inr result \<Rightarrow>
          Inr \<lparr> res_status = 200,
                res_headers =
                  [(''Content-Type'', ''text/plain; charset=utf-8''),
                   (''Cache-Control'',
                    ''no-store, no-cache, must-revalidate, proxy-revalidate, max-age=0, no-transform''),
                   (''Pragma'', ''no-cache''),
                   (''Expires'', ''0'')],
                res_body =
                  StreamBody
                    \<lparr> chunks = map TextEncoder_encode (filter (\<lambda>text. text \<noteq> []) (u_texts result)),
                      errored = u_fails result \<rparr> \<rparr>)"

text \<open>The \<open>for\<close> loop of \<open>POST\<close> over the candidates: the first response that is
  created is returned; when the list is exhausted the last error is.\<close>

fun try_candidates ::
  "generation \<Rightarrow> RequestMessage list \<Rightarrow> jsstring list \<Rightarrow> error option
     \<Rightarrow> (error option + response) \<times> upstream_call list"
where
  "try_candidates gen messages [] lastError = (Inl lastError, [])"
| "try_candidates gen messages (modelName # rest) lastError =
     (case createStreamResponse gen messages modelName of
        Inr res \<Rightarrow> (Inr res, [GenerateContentStream modelName])
      | Inl e \<Rightarrow>
          (let (r, calls) = try_candidates gen messages rest (Some e)
           in (r, GenerateContentStream modelName # calls)))"

text \<open>The parsed request body. \<open>request.json()\<close> may reject; the parsed value may be
  \<open>null\<close>, on which the property access throws; otherwise its \<open>messages\<close> property is
  undefined or null (replaced by the empty array), some value that is not an array, or an
  array, whose elements are taken to have the declared type \<open>RequestMessage\<close>.\<close>

datatype messages_field =
    MessagesAbsent
  | MessagesNotArray
  | MessagesArray "RequestMessage list"

datatype request_body =
    BodyRejects
  | BodyNull
  | BodyValue messages_field

record gateway_env =
  env_apiKey :: "jsstring option"
  env_now :: int
  env_listing :: listing_fetch
  env_generateContentStream :: generation

definition invalid_body_response :: response where
  "invalid_body_response =
     NextResponse_json [(''error'', ''Invalid request body. Expected JSON payload.'')] 400"

definition invalid_request_response :: response where
  "invalid_request_response =
     NextResponse_json
       [(''error'', ''Invalid request. 'messages' must be a non-empty array.'')] 400"

definition POST ::
  "gateway_env \<Rightarrow> request_body \<Rightarrow> model_cache \<Rightarrow> response \<times> model_cache \<times> upstream_call list"
where
  "POST env request cache =
     (if env_apiKey env = None \<or> env_apiKey env = Some [] then
        (NextResponse_json
           [(''error'', ''Missing GEMINI_API_KEY. Add it to your environment variables.'')] 500,
         cache, [])
      else
        (case request of
           BodyRejects \<Rightarrow> (invalid_body_response, cache, [])
         | BodyNull \<Rightarrow> (invalid_body_response, cache, [])
         | BodyValue field \<Rightarrow>
             (case (case field of
                      MessagesAbsent \<Rightarrow> Some []
                    | MessagesNotArray \<Rightarrow> None
                    | MessagesArray ms \<Rightarrow> Some ms) of
                None \<Rightarrow> (invalid_request_response, cache, [])
              | Some messages \<Rightarrow>
                  if length messages = 0 then (invalid_request_response, cache, [])
                  else
                    (case getAvailableModels (env_listing env) (env_now env) cache of
                       (Inl e, cache', calls) \<Rightarrow> (invalid_body_response, cache', calls)
                     | (Inr modelCandidates, cache', calls) \<Rightarrow>
                         if length modelCandidates = 0 then
                           (NextResponse_json
                              [(''error'',
                                ''No Gemini models with generateContent support are available for this API key.'')]
                              500,
                            cache', calls)
                         else
                           (case try_candidates (env_generateContentStream env) messages
                                   modelCandidates None of
                              (Inr res, calls') \<Rightarrow> (res, cache', calls @ calls')
                            | (Inl lastError, calls') \<Rightarrow>
                                (NextResponse_json
                                   [(''error'',
                                     ''The AI service is currently unavailable. Please try again later.'')]
                                   503,
                                 cache', calls @ calls'))))))"

section \<open>Client: the chat state and its updates\<close>

text \<open>The React state of \<open>ChatApp\<close> that the submission reads or writes.\<close>

record app_state =
  chats :: "ChatSession list"
  activeChatId :: jsstring
  input :: jsstring
  inputImage :: "ChatImage option"
  isStreaming :: bool
  errorMessage :: jsstring
  sidebarOpen :: bool

text \<open>\<open>chats.find((chat) => chat.id === activeChatId) ?? chats[0]\<close>\<close>

definition activeChat :: "app_state \<Rightarrow> ChatSession option" where
  "activeChat st =
     (case find (\<lambda>chat. c_id chat = activeChatId st) (chats st) of
        Some chat \<Rightarrow> Some chat
      | None \<Rightarrow> (case chats st of [] \<Rightarrow> None | chat # _ \<Rightarrow> Some chat))"

definition upsertChat :: "jsstring \<Rightarrow> (ChatSession \<Rightarrow> ChatSession) \<Rightarrow> app_state \<Rightarrow> app_state" where
  "upsertChat chatId updater st =
     st\<lparr> chats := map (\<lambda>chat. if c_id chat = chatId then updater chat else chat) (chats st) \<rparr>"

text \<open>\<open>createEmptyChat\<close>, given the results of \<open>createId()\<close> and \<open>Date.now()\<close>.\<close>

definition createEmptyChat :: "jsstring \<Rightarrow> int \<Rightarrow> ChatSession" where
  "createEmptyChat newId now =
     \<lparr> c_id = newId, c_title = js ''New Chat'', c_createdAt = now, c_updatedAt = now,
       c_messages = [] \<rparr>"

definition selectChat :: "jsstring \<Rightarrow> app_state \<Rightarrow> app_state" where
  "selectChat chatId st = st\<lparr> activeChatId := chatId, sidebarOpen := False \<rparr>"

definition startNewChat :: "jsstring \<Rightarrow> int \<Rightarrow> app_state \<Rightarrow> app_state" where
  "startNewChat newId now st =
     (let chat = createEmptyChat newId now
      in st\<lparr> chats := chat # chats st, activeChatId := c_id chat, input := [],
             inputImage := None, sidebarOpen := False, errorMessage := [] \<rparr>)"

definition clearAllChats :: "jsstring \<Rightarrow> int \<Rightarrow> app_state \<Rightarrow> app_state" where
  "clearAllChats newId now st =
     (let chat = createEmptyChat newId now
      in st\<lparr> chats := [chat], activeChatId := c_id chat, input := [],
             inputImage := None, errorMessage := [], sidebarOpen := False \<rparr>)"

text \<open>The updater that \<open>sendMessage\<close> passes to \<open>upsertChat\<close> at each of its three
  content updates (the failed response, each chunk, the caught exception): the messages
  with the assistant message's id get the given content.\<close>

definition setAssistantContent :: "jsstring \<Rightarrow> jsstring \<Rightarrow> int \<Rightarrow> ChatSession \<Rightarrow> ChatSession" where
  "setAssistantContent assistantId text now chat =
     chat\<lparr> c_messages :=
             map (\<lambda>message. if m_id message = assistantId
                             then message\<lparr> m_content := text \<rparr> else message)
                 (c_messages chat),
           c_updatedAt := now \<rparr>"

section \<open>Client: submitting a message\<close>

text \<open>What a submission keeps in its closure: the id of the chat that was active when it
  started, and the two messages it created.\<close>

record submission =
  s_chatId :: jsstring
  s_userMessage :: ChatMessage
  s_assistantMessage :: ChatMessage
  s_nextMessages :: "ChatMessage list"

text \<open>The synchronous first part of \<open>sendMessage\<close>, up to the request. The two ids are
  the results of \<open>createId()\<close>. \<open>None\<close> is the early return.\<close>

definition sendMessage_submit ::
  "jsstring \<Rightarrow> jsstring \<Rightarrow> int \<Rightarrow> app_state \<Rightarrow> (submission \<times> app_state) option"
where
  "sendMessage_submit userId assistantId now st =
     (let text = trim (input st) in
      case activeChat st of
        None \<Rightarrow> None
      | Some chat0 \<Rightarrow>
          if (text = [] \<and> inputImage st = None) \<or> isStreaming st then None
          else
            (let selectedImage = inputImage st;
                 st1 = st\<lparr> errorMessage := [], input := [], inputImage := None,
                           isStreaming := True \<rparr>;
                 userMessage = \<lparr> m_id = userId, m_role = User, m_content = text,
                                 m_image = selectedImage \<rparr>;
                 assistantMessage = \<lparr> m_id = assistantId, m_role = Assistant, m_content = [],
                                      m_image = None \<rparr>;
                 nextMessages = c_messages chat0 @ [userMessage, assistantMessage];
                 st2 = upsertChat (c_id chat0)
                         (\<lambda>chat. chat\<lparr> c_messages := nextMessages,
                                        c_title := deriveTitle nextMessages,
                                        c_updatedAt := now \<rparr>) st1
             in Some (\<lparr> s_chatId = c_id chat0, s_userMessage = userMessage,
                         s_assistantMessage = assistantMessage,
                         s_nextMessages = nextMessages \<rparr>, st2)))"

text \<open>The body of the request: role, content and image of every message.\<close>

definition request_messages :: "ChatMessage list \<Rightarrow> RequestMessage list" where
  "request_messages ms =
     map (\<lambda>message. \<lparr> r_role = m_role message, r_content = m_content message,
                       r_image = m_image message \<rparr>) ms"

text \<open>One turn of the \<open>while\<close> loop for a chunk that has a value: the decoded text is
  added to \<open>fullAssistantText\<close>, and the whole of it is written to the placeholder of the
  submission's chat. \<open>now\<close> is the value of \<open>Date.now()\<close> in the updater.\<close>

definition on_chunk ::
  "submission \<Rightarrow> int \<Rightarrow> byte list \<Rightarrow> TextDecoder \<times> jsstring \<times> app_state
     \<Rightarrow> TextDecoder \<times> jsstring \<times> app_state"
where
  "on_chunk sub now value = (\<lambda>(decoder, fullAssistantText, st).
     (let (decoder', text) = decode decoder value True;
          fullAssistantText' = fullAssistantText @ text
      in (decoder', fullAssistantText',
          upsertChat (s_chatId sub)
            (setAssistantContent (m_id (s_assistantMessage sub)) fullAssistantText' now) st)))"

text \<open>The loop over the chunks that the reader delivers; the \<open>i\<close>-th call of
  \<open>Date.now()\<close> returns \<open>clock i\<close>.\<close>

fun read_loop ::
  "submission \<Rightarrow> (nat \<Rightarrow> int) \<Rightarrow> nat \<Rightarrow> byte list list \<Rightarrow> TextDecoder \<times> jsstring \<times> app_state
     \<Rightarrow> TextDecoder \<times> jsstring \<times> app_state"
where
  "read_loop sub clock i [] acc = acc"
| "read_loop sub clock i (value # rest) acc =
     read_loop sub clock (Suc i) rest (on_chunk sub (clock i) value acc)"

text \<open>The two failure paths: the fixed string becomes the error banner and the
  placeholder's content.\<close>

definition on_failure :: "submission \<Rightarrow> string \<Rightarrow> int \<Rightarrow> app_state \<Rightarrow> app_state" where
  "on_failure sub fallback now st =
     upsertChat (s_chatId sub)
       (setAssistantContent (m_id (s_assistantMessage sub)) (js fallback) now)
       (st\<lparr> errorMessage := js fallback \<rparr>)"

text \<open>What the request to \<open>/api/chat\<close> gives: \<open>fetch\<close> rejects, or a response with its
  \<open>ok\<close> flag and its body, if it has one.\<close>

datatype chat_fetch = ChatFetchRejects | ChatResponse bool "http_stream option"

text \<open>\<open>sendMessage\<close> as a whole, when nothing else touches the state while it runs.\<close>

definition sendMessage ::
  "jsstring \<Rightarrow> jsstring \<Rightarrow> (nat \<Rightarrow> int) \<Rightarrow> chat_fetch \<Rightarrow> app_state \<Rightarrow> app_state"
where
  "sendMessage userId assistantId clock fetched st =
     (case sendMessage_submit userId assistantId (clock 0) st of
        None \<Rightarrow> st
      | Some (sub, st2) \<Rightarrow>
          (let st3 =
             (case fetched of
                ChatFetchRejects \<Rightarrow>
                  on_failure sub ''Something went wrong while generating a response.'' (clock 1) st2
              | ChatResponse ok body \<Rightarrow>
                  (case body of
                     None \<Rightarrow> on_failure sub ''Failed to stream response from API.'' (clock 1) st2
                   | Some stream \<Rightarrow>
                       if \<not> ok then
                         on_failure sub ''Failed to stream response from API.'' (clock 1) st2
                       else
                         (let (decoder, fullAssistantText, st') =
                                read_loop sub clock 1 (chunks stream) (TextDecoder_new, [], st2)
                          in if errored stream then
                               on_failure sub ''Something went wrong while generating a response.''
                                 (clock (Suc (length (chunks stream)))) st'
                             else st')))
           in st3\<lparr> isStreaming := False \<rparr>))"

section \<open>Example data\<close>

text \<open>One chat, active, with the draft \<open>" hi "\<close>.\<close>

definition ex_state :: app_state where
  "ex_state =
     \<lparr> chats = [\<lparr> c_id = js ''c1'', c_title = js ''New Chat'', c_createdAt = 0, c_updatedAt = 0,
                  c_messages = [] \<rparr>],
       activeChatId = js ''c1'', input = js '' hi '', inputImage = None, isStreaming = False,
       errorMessage = [], sidebarOpen = False \<rparr>"

text \<open>A listing with an embedding model, a model that does not generate content and a
  descriptor without a name.\<close>

definition ex_models :: "model_descriptor list" where
  "ex_models =
          [\<lparr> md_name = Some (js ''models/text-embedding-004''),
              md_supportedGenerationMethods = Some [js ''generateContent''] \<rparr>,
           \<lparr> md_name = Some (js ''models/gemini-2.0-flash''),
              md_supportedGenerationMethods = Some [js ''generateContent'', js ''countTokens''] \<rparr>,
           \<lparr> md_name = Some (js ''models/gemini-1.5-flash-latest''),
              md_supportedGenerationMethods = Some [js ''generateContent''] \<rparr>,
           \<lparr> md_name = Some (js ''models/aqa''),
              md_supportedGenerationMethods = Some [js ''generateAnswer''] \<rparr>,
           \<lparr> md_name = None, md_supportedGenerationMethods = Some [js ''generateContent''] \<rparr>,
           \<lparr> md_name = Some (js ''models/gemini-1.5-pro-latest''),
              md_supportedGenerationMethods = Some [js ''generateContent''] \<rparr>]"

definition ex_payload :: ListModelsResponse where
  "ex_payload = Some ex_models"

text \<open>An upstream on which only \<open>gemini-1.5-flash-latest\<close> opens a stream, and one on
  which no model does.\<close>

definition ex_generation :: generation where
  "ex_generation modelName contents =
     (if modelName = js ''gemini-1.5-flash-latest''
      then Inr \<lparr> u_texts = [js ''ab'', [], js ''c''], u_fails = False \<rparr>
      else Inl (UpstreamError (js ''ModelNotSupported'')))"

definition ex_generation_down :: generation where
  "ex_generation_down modelName contents = Inl (UpstreamError (js ''Unavailable''))"

definition ex_env :: gateway_env where
  "ex_env = \<lparr> env_apiKey = Some (js ''key''), env_now = 1000,
              env_listing = ListingResponse 200 (Some ex_payload),
              env_generateContentStream = ex_generation \<rparr>"

definition ex_request :: request_body where
  "ex_request =
     BodyValue (MessagesArray
       [\<lparr> r_role = User, r_content = js ''reverse a string'', r_image = None \<rparr>])"

text \<open>The candidates that this listing resolves to, and the cache filled at time 1000.\<close>

definition ex_candidates :: "jsstring list" where
  "ex_candidates =
     [js ''gemini-1.5-pro-latest'', js ''gemini-1.5-flash-latest'', js ''gemini-2.0-flash'']"

definition ex_cache :: model_cache where
  "ex_cache = \<lparr> cachedModels = ex_candidates, lastModelFetchTime = 1000 \<rparr>"

text \<open>A submission in flight from chat \<open>c1\<close>, after the user has selected the older chat
  \<open>c2\<close>.\<close>

definition ex_sub :: submission where
  "ex_sub =
     \<lparr> s_chatId = js ''c1'',
       s_userMessage = \<lparr> m_id = js ''u1'', m_role = User, m_content = js ''hi'', m_image = None \<rparr>,
       s_assistantMessage =
         \<lparr> m_id = js ''a1'', m_role = Assistant, m_content = [], m_image = None \<rparr>,
       s_nextMessages =
         [\<lparr> m_id = js ''u1'', m_role = User, m_content = js ''hi'', m_image = None \<rparr>,
          \<lparr> m_id = js ''a1'', m_role = Assistant, m_content = [], m_image = None \<rparr>] \<rparr>"

definition ex_streaming :: app_state where
  "ex_streaming =
     \<lparr> chats =
         [\<lparr> c_id = js ''c1'', c_title = js ''hi'', c_createdAt = 0, c_updatedAt = 5,
            c_messages =
              [\<lparr> m_id = js ''u1'', m_role = User, m_content = js ''hi'', m_image = None \<rparr>,
               \<lparr> m_id = js ''a1'', m_role = Assistant, m_content = [], m_image = None \<rparr>] \<rparr>,
          \<lparr> c_id = js ''c2'', c_title = js ''old'', c_createdAt = 0, c_updatedAt = 1,
            c_messages =
              [\<lparr> m_id = js ''u0'', m_role = User, m_content = js ''old'', m_image = None \<rparr>,
               \<lparr> m_id = js ''a0'', m_role = Assistant, m_content = js ''ok'', m_image = None \<rparr>] \<rparr>],
       activeChatId = js ''c2'', input = [], inputImage = None, isStreaming = True,
       errorMessage = [], sidebarOpen = False \<rparr>"

section \<open>Auxiliary facts\<close>

lemma find_first:
  "\<forall>p \<in> set pre. \<not> P p \<Longrightarrow> P m \<Longrightarrow> find P (pre @ m # rest) = Some m"
  by (induction pre) auto

lemma find_none: "\<forall>p \<in> set xs. \<not> P p \<Longrightarrow> find P xs = None"
  by (induction xs) auto

lemma find_in_set: "find P xs = Some x \<Longrightarrow> x \<in> set xs"
  by (induction xs) (auto split: if_splits)

lemma activeChat_in_chats: "activeChat st = Some chat \<Longrightarrow> chat \<in> set (chats st)"
  by (auto simp: activeChat_def split: option.splits list.splits dest: find_in_set)

lemma trim_no_outer_whitespace:
  assumes "trim s \<noteq> []"
  shows "\<not> isWhiteSpace (hd (trim s)) \<and> \<not> isWhiteSpace (last (trim s))"
proof -
  define t where "t = dropWhile isWhiteSpace s"
  define u where "u = dropWhile isWhiteSpace (rev t)"
  have tr: "trim s = rev u" by (simp add: trim_def t_def u_def)
  with assms have u: "u \<noteq> []" by simp
  then have "rev t \<noteq> []" by (auto simp: u_def)
  then have t: "t \<noteq> []" by simp
  have 1: "\<not> isWhiteSpace (hd u)" using u unfolding u_def by (rule hd_dropWhile)
  have "\<not> isWhiteSpace (hd t)" using t unfolding t_def by (rule hd_dropWhile)
  moreover have "last u = last (rev t)"
    using u unfolding u_def
    by (metis last_appendR takeWhile_dropWhile_id)
  ultimately have 2: "\<not> isWhiteSpace (last u)" using t by (simp add: last_rev)
  show ?thesis using 1 2 u by (simp add: tr hd_rev last_rev)
qed

section \<open>Transcript translation\<close>

text \<open>
  Claim C5 says that the text part of a turn is the trimmed text. The code tests the
  trimmed text but sends \<open>message.content\<close> as it is: an assistant message \<open>" hi "\<close>
  becomes a turn whose text part is \<open>" hi "\<close>, not \<open>"hi"\<close>.
\<close>

theorem buildGeminiContents_untrimmed_counterexample:
  "g_parts (hd (buildGeminiContents
      [\<lparr> r_role = Assistant, r_content = js '' hi '', r_image = None \<rparr>]))
     = [Text (js '' hi '')] \<and>
   g_parts (hd (buildGeminiContents
      [\<lparr> r_role = Assistant, r_content = js '' hi '', r_image = None \<rparr>]))
     \<noteq> [Text (trim (js '' hi ''))]"
  by (simp add: buildGeminiContents_def js_def trim_def isWhiteSpace_def)

text \<open>
  Claim C5, amended: the translation goes through the transcript in order. A message whose
  trimmed text is empty and which has no image is dropped. Every other message becomes
  one turn, with role \<open>model\<close> for an assistant message and \<open>user\<close> otherwise, whose parts
  are the message's content as received, untrimmed (only when its trimmed text is
  non-empty), followed by the inline image payload (only when an image is present).
\<close>

theorem buildGeminiContents_turns:
  "buildGeminiContents [] = [] \<and>
   buildGeminiContents (message # messages) =
     (if trim (r_content message) = [] \<and> r_image message = None
      then buildGeminiContents messages
      else \<lparr> g_role = (if r_role message = Assistant then ''model'' else ''user''),
             g_parts =
               (if trim (r_content message) \<noteq> [] then [Text (r_content message)] else []) @
               (case r_image message of
                  Some im \<Rightarrow> [InlineData (mimeType im) (data im)]
                | None \<Rightarrow> []) \<rparr>
           # buildGeminiContents messages)"
  by (simp add: buildGeminiContents_def)

theorem buildGeminiContents_turns_witness:
  "buildGeminiContents
     [\<lparr> r_role = Assistant, r_content = js ''  '', r_image = None \<rparr>,
      \<lparr> r_role = User, r_content = js '' hi '',
        r_image = Some \<lparr> mimeType = js ''image/png'', data = js ''AAAA'', name = js ''a.png'' \<rparr> \<rparr>]
   = [\<lparr> g_role = ''user'',
        g_parts = [Text (js '' hi ''), InlineData (js ''image/png'') (js ''AAAA'')] \<rparr>]"
  using
    buildGeminiContents_turns
      [of "\<lparr> r_role = Assistant, r_content = js ''  '', r_image = None \<rparr>"
          "[\<lparr> r_role = User, r_content = js '' hi '',
             r_image = Some \<lparr> mimeType = js ''image/png'', data = js ''AAAA'',
                              name = js ''a.png'' \<rparr> \<rparr>]"]
    buildGeminiContents_turns
      [of "\<lparr> r_role = User, r_content = js '' hi '',
             r_image = Some \<lparr> mimeType = js ''image/png'', data = js ''AAAA'',
                              name = js ''a.png'' \<rparr> \<rparr>" "[]"]
  by (simp add: js_def trim_def isWhiteSpace_def)

section \<open>Session titles\<close>

text \<open>
  Claim C9 says that the title is "New Chat" whenever the first user message has no
  non-empty trimmed text. For such a message with an image the code returns
  \<open>Image: <name>\<close> instead.
\<close>

theorem deriveTitle_image_counterexample:
  "deriveTitle [\<lparr> m_id = js ''u1'', m_role = User, m_content = js '' '',
       m_image = Some \<lparr> mimeType = js ''image/png'', data = js ''AAAA'', name = js ''a.png'' \<rparr> \<rparr>]
   = js ''Image: a.png'' \<and>
   deriveTitle [\<lparr> m_id = js ''u1'', m_role = User, m_content = js '' '',
       m_image = Some \<lparr> mimeType = js ''image/png'', data = js ''AAAA'', name = js ''a.png'' \<rparr> \<rparr>]
   \<noteq> js ''New Chat''"
  by (simp add: deriveTitle_def js_def trim_def isWhiteSpace_def)

text \<open>
  Claim C9, amended: the title of a list without a user message is "New Chat". Otherwise
  it is computed from the first user message: the first 50 code units of its trimmed text
  when that is non-empty; when it is empty, \<open>Image: \<close> followed by the image's name if
  the message has an image, and "New Chat" if it has none.
\<close>

theorem deriveTitle_first_user_message:
  assumes "\<forall>p \<in> set pre. m_role p \<noteq> User" and "m_role m = User"
  shows "deriveTitle pre = js ''New Chat'' \<and>
         deriveTitle (pre @ m # rest) =
           (if trim (m_content m) \<noteq> [] then take 50 (trim (m_content m))
            else case m_image m of
                   Some im \<Rightarrow> js ''Image: '' @ name im
                 | None \<Rightarrow> js ''New Chat'')"
  using assms by (simp add: deriveTitle_def find_first find_none Let_def)

theorem deriveTitle_first_user_message_witness:
  "deriveTitle
     [\<lparr> m_id = js ''a0'', m_role = Assistant, m_content = js ''hello'', m_image = None \<rparr>,
      \<lparr> m_id = js ''u1'', m_role = User,
        m_content =
          js ''  fix my bug please with a very long description exceeding fifty characters total'',
        m_image = None \<rparr>,
      \<lparr> m_id = js ''a1'', m_role = Assistant, m_content = [], m_image = None \<rparr>]
   = js ''fix my bug please with a very long description exc''"
proof -
  have h1: "\<forall>p \<in> set [\<lparr> m_id = js ''a0'', m_role = Assistant, m_content = js ''hello'',
                          m_image = None \<rparr>]. m_role p \<noteq> User"
    by simp
  have h2: "m_role \<lparr> m_id = js ''u1'', m_role = User,
        m_content =
          js ''  fix my bug please with a very long description exceeding fifty characters total'',
        m_image = None \<rparr> = User"
    by simp
  from deriveTitle_first_user_message
         [OF h1 h2, of "[\<lparr> m_id = js ''a1'', m_role = Assistant, m_content = [], m_image = None \<rparr>]"]
  show ?thesis by (simp add: js_def trim_def isWhiteSpace_def)
qed

section \<open>Submitting a message\<close>

text \<open>
  Claim C10: when \<open>sendMessage\<close> accepts a submission, the user message it creates has the
  trimmed draft as its content, which therefore neither starts nor ends with whitespace,
  and the assistant placeholder has the empty string; the chat that was active gets its
  former messages followed by these two.
\<close>

theorem sendMessage_submit_contents:
  assumes "sendMessage_submit userId assistantId now st = Some (sub, st')"
  shows "\<exists>chat0. activeChat st = Some chat0 \<and> s_chatId sub = c_id chat0 \<and>
           m_content (s_userMessage sub) = trim (input st) \<and>
           (trim (input st) \<noteq> [] \<longrightarrow>
              \<not> isWhiteSpace (hd (m_content (s_userMessage sub))) \<and>
              \<not> isWhiteSpace (last (m_content (s_userMessage sub)))) \<and>
           m_content (s_assistantMessage sub) = [] \<and>
           (\<exists>chat \<in> set (chats st'). c_id chat = c_id chat0) \<and>
           (\<forall>chat \<in> set (chats st'). c_id chat = c_id chat0 \<longrightarrow>
              c_messages chat = c_messages chat0 @ [s_userMessage sub, s_assistantMessage sub])"
proof -
  from assms obtain chat0 where ac: "activeChat st = Some chat0"
    by (auto simp: sendMessage_submit_def Let_def split: option.splits)
  have mem: "chat0 \<in> set (chats st)" using ac by (rule activeChat_in_chats)
  from assms ac have sub: "sub = \<lparr> s_chatId = c_id chat0,
        s_userMessage = \<lparr> m_id = userId, m_role = User, m_content = trim (input st),
                          m_image = inputImage st \<rparr>,
        s_assistantMessage = \<lparr> m_id = assistantId, m_role = Assistant, m_content = [],
                               m_image = None \<rparr>,
        s_nextMessages = c_messages chat0 @
          [\<lparr> m_id = userId, m_role = User, m_content = trim (input st),
             m_image = inputImage st \<rparr>,
           \<lparr> m_id = assistantId, m_role = Assistant, m_content = [], m_image = None \<rparr>] \<rparr>"
    by (auto simp: sendMessage_submit_def Let_def split: if_splits)
  from assms ac have st': "chats st' = map (\<lambda>chat. if c_id chat = c_id chat0
        then chat\<lparr> c_messages := s_nextMessages sub,
                   c_title := deriveTitle (s_nextMessages sub), c_updatedAt := now \<rparr>
        else chat) (chats st)"
    by (auto simp: sendMessage_submit_def Let_def upsertChat_def split: if_splits)
  have ex: "\<exists>chat \<in> set (chats st'). c_id chat = c_id chat0"
  proof -
    have "map c_id (chats st') = map c_id (chats st)" unfolding st' by simp
    then have "c_id ` set (chats st') = c_id ` set (chats st)" by (metis set_map)
    with mem show ?thesis by (metis image_iff)
  qed
  have all: "\<forall>chat \<in> set (chats st'). c_id chat = c_id chat0 \<longrightarrow>
              c_messages chat = c_messages chat0 @ [s_userMessage sub, s_assistantMessage sub]"
    unfolding st' by (auto simp: sub)
  have ws: "trim (input st) \<noteq> [] \<longrightarrow>
              \<not> isWhiteSpace (hd (m_content (s_userMessage sub))) \<and>
              \<not> isWhiteSpace (last (m_content (s_userMessage sub)))"
    using trim_no_outer_whitespace[of "input st"] by (simp add: sub)
  show ?thesis using ac ex all ws by (simp add: sub)
qed

theorem sendMessage_submit_contents_witness:
  "(case sendMessage_submit (js ''u1'') (js ''a1'') 5 ex_state of
      None \<Rightarrow> False
    | Some (sub, st') \<Rightarrow>
        m_content (s_userMessage sub) = js ''hi'' \<and>
        m_content (s_assistantMessage sub) = [] \<and>
        map c_messages (chats st') = [[s_userMessage sub, s_assistantMessage sub]])"
proof -
  obtain sub st' where
    run: "sendMessage_submit (js ''u1'') (js ''a1'') 5 ex_state = Some (sub, st')"
    by (simp add: sendMessage_submit_def activeChat_def ex_state_def Let_def js_def trim_def
          isWhiteSpace_def)
  from sendMessage_submit_contents[OF run] obtain chat0 where
    a: "activeChat ex_state = Some chat0"
    and u: "m_content (s_userMessage sub) = trim (input ex_state)"
    and p: "m_content (s_assistantMessage sub) = []"
    and m: "\<forall>chat \<in> set (chats st'). c_id chat = c_id chat0 \<longrightarrow>
              c_messages chat = c_messages chat0 @ [s_userMessage sub, s_assistantMessage sub]"
    by blast
  have c0: "chat0 = \<lparr> c_id = js ''c1'', c_title = js ''New Chat'', c_createdAt = 0,
                      c_updatedAt = 0, c_messages = [] \<rparr>"
    using a by (simp add: activeChat_def ex_state_def)
  have ids: "map c_id (chats st') = [js ''c1'']"
    using run
    by (auto simp: sendMessage_submit_def activeChat_def ex_state_def Let_def upsertChat_def
          split: if_splits)
  then obtain c where cs: "chats st' = [c]" and cid: "c_id c = js ''c1''" by auto
  have "c_messages c = [s_userMessage sub, s_assistantMessage sub]"
    using m cs cid c0 by simp
  then show ?thesis
    using u p cs unfolding run by (simp add: ex_state_def js_def trim_def isWhiteSpace_def)
qed

section \<open>The gateway's boundary validation\<close>

text \<open>
  Claim C7 says that every request whose \<open>messages\<close> field is absent, not an array or
  empty is answered with 400. The handler looks at the credential first: without
  \<open>GEMINI_API_KEY\<close> such a request is answered with 500.
\<close>

theorem POST_missing_key_counterexample:
  "res_status (fst (POST (ex_env\<lparr> env_apiKey := None \<rparr>) (BodyValue (MessagesArray []))
                      model_cache_init)) = 500 \<and>
   res_status (fst (POST (ex_env\<lparr> env_apiKey := None \<rparr>) (BodyValue (MessagesArray []))
                      model_cache_init)) \<noteq> 400"
  by (simp add: POST_def ex_env_def NextResponse_json_def)

text \<open>
  Claim C7, amended: for every request whose \<open>messages\<close> field is absent, not an array or
  an empty array, the gateway makes no upstream call and leaves the cache alone; it
  returns 400 with a JSON body with an \<open>error\<close> key when the API key is configured, and
  500 with a JSON body with an \<open>error\<close> key when it is not.
\<close>

theorem POST_invalid_messages:
  assumes "field = MessagesAbsent \<or> field = MessagesNotArray \<or> field = MessagesArray []"
  shows "POST env (BodyValue field) cache =
           (if env_apiKey env = None \<or> env_apiKey env = Some []
            then NextResponse_json
                   [(''error'', ''Missing GEMINI_API_KEY. Add it to your environment variables.'')]
                   500
            else NextResponse_json
                   [(''error'', ''Invalid request. 'messages' must be a non-empty array.'')] 400,
            cache, [])"
  using assms by (auto simp: POST_def invalid_request_response_def)

theorem POST_invalid_messages_witness:
  "POST ex_env (BodyValue MessagesAbsent) model_cache_init =
     (NextResponse_json
        [(''error'', ''Invalid request. 'messages' must be a non-empty array.'')] 400,
      model_cache_init, []) \<and>
   POST ex_env (BodyValue MessagesNotArray) model_cache_init =
     (NextResponse_json
        [(''error'', ''Invalid request. 'messages' must be a non-empty array.'')] 400,
      model_cache_init, []) \<and>
   POST ex_env (BodyValue (MessagesArray [])) model_cache_init =
     (NextResponse_json
        [(''error'', ''Invalid request. 'messages' must be a non-empty array.'')] 400,
      model_cache_init, [])"
  using POST_invalid_messages [of MessagesAbsent ex_env model_cache_init]
    POST_invalid_messages [of MessagesNotArray ex_env model_cache_init]
    POST_invalid_messages [of "MessagesArray []" ex_env model_cache_init]
  by (simp add: ex_env_def js_def)

section \<open>Model resolution\<close>

lemma modelIds_of_Cons:
  "modelIds_of (Some (model # models)) =
     (case md_supportedGenerationMethods model of
        None \<Rightarrow> []
      | Some methods \<Rightarrow>
          if js ''generateContent'' \<in> set methods then
            (case md_name model of
               None \<Rightarrow> []
             | Some n \<Rightarrow> if replace n (js ''models/'') [] \<noteq> []
                          then [replace n (js ''models/'') []] else [])
          else [])
     @ modelIds_of (Some models)"
  by (simp add: modelIds_of_def split: option.splits)

lemma ex_resolved:
  "getAvailableModels (env_listing ex_env) (env_now ex_env) model_cache_init =
     (Inr ex_candidates, ex_cache, [ListModels])"
  by (simp add: getAvailableModels_def ex_env_def model_cache_init_def ex_payload_def ex_models_def
        modelIds_of_def PREFERRED_MODEL_ORDER_def js_def Let_def
        ex_candidates_def ex_cache_def)

text \<open>
  Claim C2 says that a failed listing call gives status 500. The error thrown by
  \<open>getAvailableModels\<close> is caught by the handler's only \<open>catch\<close>, which answers
  400 "Invalid request body. Expected JSON payload."; the listing was called once.
\<close>

theorem POST_listing_failure_status:
  "POST (ex_env\<lparr> env_listing := ListingResponse 503 None \<rparr>) ex_request model_cache_init =
     (NextResponse_json [(''error'', ''Invalid request body. Expected JSON payload.'')] 400,
      model_cache_init, [ListModels])"
  by (simp add: POST_def ex_env_def ex_request_def model_cache_init_def getAvailableModels_def
        invalid_body_response_def js_def)

text \<open>
  Claim C4: when a call has listed the models successfully and got a non-empty list, a
  second call less than the TTL later makes no listing call and returns the same list,
  whatever the listing endpoint would answer then.
\<close>

theorem getAvailableModels_cached_within_ttl:
  assumes "getAvailableModels listing1 now1 cache0 = (Inr models, cache1, [ListModels])"
    and "models \<noteq> []"
    and "now2 - now1 < CACHE_DURATION_MS"
  shows "getAvailableModels listing2 now2 cache1 = (Inr models, cache1, [])"
  using assms
  by (auto simp: getAvailableModels_def Let_def split: if_splits listing_fetch.splits option.splits)

theorem getAvailableModels_cached_within_ttl_witness:
  "getAvailableModels ListingRejects 3600999 ex_cache = (Inr ex_candidates, ex_cache, [])"
proof -
  have ne: "ex_candidates \<noteq> []" by (simp add: ex_candidates_def)
  have ttl: "(3600999 :: int) - env_now ex_env < CACHE_DURATION_MS"
    by (simp add: ex_env_def CACHE_DURATION_MS_def)
  from getAvailableModels_cached_within_ttl [OF ex_resolved ne ttl] show ?thesis .
qed

lemma modelIds_of_listing:
  "modelIds_of (Some models) =
     concat (map (\<lambda>model.
                    case md_supportedGenerationMethods model of
                      None \<Rightarrow> []
                    | Some methods \<Rightarrow>
                        if js ''generateContent'' \<in> set methods then
                          (case md_name model of
                             None \<Rightarrow> []
                           | Some n \<Rightarrow> if replace n (js ''models/'') [] \<noteq> []
                                        then [replace n (js ''models/'') []] else [])
                        else [])
                 models)"
proof (induction models)
  case Nil
  show ?case by (simp add: modelIds_of_def)
next
  case (Cons model models)
  show ?case unfolding modelIds_of_Cons Cons.IH by simp
qed

text \<open>
  Claim C6: take a cache miss with a successful listing. The eligible ids are read off the
  listed models in listing order: a model counts when its generation methods include
  \<open>generateContent\<close> and it has a name, and its id is the name without the first
  \<open>models/\<close>, if that is not empty. The result is the entries of the preference list
  (\<open>gemini-1.5-pro-latest\<close>, \<open>gemini-1.5-flash-latest\<close>, \<open>gemini-pro\<close>) that are
  among the eligible ids, in the preference list's order, followed by the eligible ids
  that are not in the preference list and do not contain \<open>embedding\<close>, in listing order.
  The result also becomes the cache. A payload without \<open>models\<close> gives the empty list.
\<close>

theorem getAvailableModels_order:
  assumes "cachedModels cache = [] \<or> CACHE_DURATION_MS \<le> now - lastModelFetchTime cache"
    and "200 \<le> status" and "status \<le> 299"
    and "ids =
           concat (map (\<lambda>model.
                          case md_supportedGenerationMethods model of
                            None \<Rightarrow> []
                          | Some methods \<Rightarrow>
                              if js ''generateContent'' \<in> set methods then
                                (case md_name model of
                                   None \<Rightarrow> []
                                 | Some n \<Rightarrow> if replace n (js ''models/'') [] \<noteq> []
                                              then [replace n (js ''models/'') []] else [])
                              else [])
                       models)"
  shows "getAvailableModels (ListingResponse status (Some (Some models))) now cache =
           (Inr (filter (\<lambda>name. name \<in> set ids) PREFERRED_MODEL_ORDER @
                 filter (\<lambda>name. name \<notin> set PREFERRED_MODEL_ORDER \<and>
                                 \<not> includes_str name (js ''embedding'')) ids),
            \<lparr> cachedModels =
                filter (\<lambda>name. name \<in> set ids) PREFERRED_MODEL_ORDER @
                filter (\<lambda>name. name \<notin> set PREFERRED_MODEL_ORDER \<and>
                                \<not> includes_str name (js ''embedding'')) ids,
              lastModelFetchTime = now \<rparr>,
            [ListModels]) \<and>
         getAvailableModels (ListingResponse status (Some None)) now cache =
           (Inr [], \<lparr> cachedModels = [], lastModelFetchTime = now \<rparr>, [ListModels]) \<and>
         PREFERRED_MODEL_ORDER =
           [js ''gemini-1.5-pro-latest'', js ''gemini-1.5-flash-latest'', js ''gemini-pro'']"
proof -
  have ids: "modelIds_of (Some models) = ids"
    unfolding assms(4) by (rule modelIds_of_listing)
  have rest: "filter (\<lambda>name. name \<notin> set (filter (\<lambda>name. name \<in> set ids)
                                               PREFERRED_MODEL_ORDER) \<and>
                             \<not> includes_str name (js ''embedding'')) ids
      = filter (\<lambda>name. name \<notin> set PREFERRED_MODEL_ORDER \<and>
                        \<not> includes_str name (js ''embedding'')) ids"
    by (rule filter_cong) auto
  have listed: "getAvailableModels (ListingResponse status (Some (Some models))) now cache =
           (Inr (filter (\<lambda>name. name \<in> set ids) PREFERRED_MODEL_ORDER @
                 filter (\<lambda>name. name \<notin> set PREFERRED_MODEL_ORDER \<and>
                                 \<not> includes_str name (js ''embedding'')) ids),
            \<lparr> cachedModels =
                filter (\<lambda>name. name \<in> set ids) PREFERRED_MODEL_ORDER @
                filter (\<lambda>name. name \<notin> set PREFERRED_MODEL_ORDER \<and>
                                \<not> includes_str name (js ''embedding'')) ids,
              lastModelFetchTime = now \<rparr>,
            [ListModels])"
    using assms(1-3) rest by (auto simp add: getAvailableModels_def Let_def ids)
  have absent: "getAvailableModels (ListingResponse status (Some None)) now cache =
           (Inr [], \<lparr> cachedModels = [], lastModelFetchTime = now \<rparr>, [ListModels])"
    using assms(1-3) by (auto simp add: getAvailableModels_def Let_def modelIds_of_def)
  show ?thesis using listed absent by (simp add: PREFERRED_MODEL_ORDER_def)
qed

theorem getAvailableModels_order_witness:
  "getAvailableModels (ListingResponse 200 (Some (Some ex_models))) 1000 model_cache_init =
     (Inr [js ''gemini-1.5-pro-latest'', js ''gemini-1.5-flash-latest'', js ''gemini-2.0-flash''],
      \<lparr> cachedModels =
          [js ''gemini-1.5-pro-latest'', js ''gemini-1.5-flash-latest'', js ''gemini-2.0-flash''],
        lastModelFetchTime = 1000 \<rparr>,
      [ListModels])"
proof -
  have miss: "cachedModels model_cache_init = [] \<or>
              CACHE_DURATION_MS \<le> 1000 - lastModelFetchTime model_cache_init"
    by (simp add: model_cache_init_def)
  have ok: "(200::nat) \<le> 200" "(200::nat) \<le> 299" by simp_all
  from getAvailableModels_order [OF miss ok refl, of ex_models] show ?thesis
    by (simp add: ex_models_def PREFERRED_MODEL_ORDER_def js_def)
qed

section \<open>Generation with fallback\<close>

lemma try_candidates_first_success:
  assumes "\<forall>m \<in> set pre. \<exists>e. gen m (buildGeminiContents messages) = Inl e"
    and "createStreamResponse gen messages c = Inr res"
  shows "try_candidates gen messages (pre @ c # rest) lastError =
           (Inr res, map GenerateContentStream (pre @ [c]))"
  using assms
proof (induction pre arbitrary: lastError)
  case Nil
  then show ?case by simp
next
  case (Cons m pre)
  from Cons.prems(1) obtain e where e: "gen m (buildGeminiContents messages) = Inl e" by auto
  have "try_candidates gen messages (pre @ c # rest) (Some e) =
           (Inr res, map GenerateContentStream (pre @ [c]))"
    using Cons.IH Cons.prems by simp
  then show ?case by (simp add: createStreamResponse_def e)
qed

lemma try_candidates_all_fail:
  assumes "\<forall>m \<in> set cands. \<exists>e. gen m (buildGeminiContents messages) = Inl e"
  shows "\<exists>e. try_candidates gen messages cands lastError
               = (Inl e, map GenerateContentStream cands)"
  using assms
proof (induction cands arbitrary: lastError)
  case Nil
  then show ?case by simp
next
  case (Cons m cands)
  from Cons.prems obtain e where e: "gen m (buildGeminiContents messages) = Inl e" by auto
  from Cons.IH[of "Some e"] Cons.prems obtain e' where
    "try_candidates gen messages cands (Some e) = (Inl e', map GenerateContentStream cands)"
    by auto
  then show ?case by (simp add: createStreamResponse_def e)
qed

text \<open>
  Claim C1: let model resolution give the candidates. If a candidate opens a stream and
  all candidates before it fail to, the handler has made exactly one attempt for each
  candidate up to that one, in the resolved order, and returns the 200 response that
  relays that candidate's stream. If the list is non-empty and every candidate fails, it
  has attempted them all, in order, and returns 503 with a JSON error and no stream.
\<close>

theorem POST_fallback_order:
  assumes key: "env_apiKey env = Some key" "key \<noteq> []"
    and msgs: "messages \<noteq> []"
    and resolved: "getAvailableModels (env_listing env) (env_now env) cache
                     = (Inr candidates, cache', calls)"
  shows
    "(candidates = pre @ c # rest \<and>
      (\<forall>m \<in> set pre. \<exists>e. env_generateContentStream env m (buildGeminiContents messages) = Inl e) \<and>
      env_generateContentStream env c (buildGeminiContents messages) = Inr stream
      \<longrightarrow> POST env (BodyValue (MessagesArray messages)) cache =
            (\<lparr> res_status = 200,
               res_headers =
                 [(''Content-Type'', ''text/plain; charset=utf-8''),
                  (''Cache-Control'',
                   ''no-store, no-cache, must-revalidate, proxy-revalidate, max-age=0, no-transform''),
                  (''Pragma'', ''no-cache''),
                  (''Expires'', ''0'')],
               res_body =
                 StreamBody
                   \<lparr> chunks = map TextEncoder_encode
                                (filter (\<lambda>text. text \<noteq> []) (u_texts stream)),
                     errored = u_fails stream \<rparr> \<rparr>,
             cache', calls @ map GenerateContentStream (pre @ [c]))) \<and>
     (candidates \<noteq> [] \<and>
      (\<forall>m \<in> set candidates.
          \<exists>e. env_generateContentStream env m (buildGeminiContents messages) = Inl e)
      \<longrightarrow> POST env (BodyValue (MessagesArray messages)) cache =
            (NextResponse_json
               [(''error'', ''The AI service is currently unavailable. Please try again later.'')]
               503,
             cache', calls @ map GenerateContentStream candidates))"
proof (intro conjI impI)
  assume a: "candidates = pre @ c # rest \<and>
      (\<forall>m \<in> set pre. \<exists>e. env_generateContentStream env m (buildGeminiContents messages) = Inl e) \<and>
      env_generateContentStream env c (buildGeminiContents messages) = Inr stream"
  then have ne: "candidates \<noteq> []" by simp
  define res where "res =
      \<lparr> res_status = 200,
        res_headers =
          [(''Content-Type'', ''text/plain; charset=utf-8''),
           (''Cache-Control'',
            ''no-store, no-cache, must-revalidate, proxy-revalidate, max-age=0, no-transform''),
           (''Pragma'', ''no-cache''),
           (''Expires'', ''0'')],
        res_body =
          StreamBody
            \<lparr> chunks = map TextEncoder_encode
                         (filter (\<lambda>text. text \<noteq> []) (u_texts stream)),
              errored = u_fails stream \<rparr> \<rparr>"
  from a have r: "createStreamResponse (env_generateContentStream env) messages c = Inr res"
    by (simp add: createStreamResponse_def res_def)
  from a have t: "try_candidates (env_generateContentStream env) messages candidates None =
      (Inr res, map GenerateContentStream (pre @ [c]))"
    using try_candidates_first_success [OF _ r, of pre rest None] by simp
  show "POST env (BodyValue (MessagesArray messages)) cache =
            (\<lparr> res_status = 200,
               res_headers =
                 [(''Content-Type'', ''text/plain; charset=utf-8''),
                  (''Cache-Control'',
                   ''no-store, no-cache, must-revalidate, proxy-revalidate, max-age=0, no-transform''),
                  (''Pragma'', ''no-cache''),
                  (''Expires'', ''0'')],
               res_body =
                 StreamBody
                   \<lparr> chunks = map TextEncoder_encode
                                (filter (\<lambda>text. text \<noteq> []) (u_texts stream)),
                     errored = u_fails stream \<rparr> \<rparr>,
             cache', calls @ map GenerateContentStream (pre @ [c]))"
    using key msgs ne by (simp add: POST_def resolved t res_def)
next
  assume a: "candidates \<noteq> [] \<and>
      (\<forall>m \<in> set candidates.
          \<exists>e. env_generateContentStream env m (buildGeminiContents messages) = Inl e)"
  then obtain e where
    "try_candidates (env_generateContentStream env) messages candidates None
       = (Inl e, map GenerateContentStream candidates)"
    using try_candidates_all_fail[of candidates "env_generateContentStream env" messages None]
    by auto
  then show "POST env (BodyValue (MessagesArray messages)) cache =
            (NextResponse_json
               [(''error'', ''The AI service is currently unavailable. Please try again later.'')]
               503,
             cache', calls @ map GenerateContentStream candidates)"
    using key msgs a by (simp add: POST_def resolved)
qed

theorem POST_fallback_order_witness:
  "POST ex_env ex_request model_cache_init =
     (\<lparr> res_status = 200,
        res_headers =
          [(''Content-Type'', ''text/plain; charset=utf-8''),
           (''Cache-Control'',
            ''no-store, no-cache, must-revalidate, proxy-revalidate, max-age=0, no-transform''),
           (''Pragma'', ''no-cache''),
           (''Expires'', ''0'')],
        res_body = StreamBody \<lparr> chunks = [[0x61, 0x62], [0x63]], errored = False \<rparr> \<rparr>,
      ex_cache,
      [ListModels, GenerateContentStream (js ''gemini-1.5-pro-latest''),
       GenerateContentStream (js ''gemini-1.5-flash-latest'')]) \<and>
   POST (ex_env\<lparr> env_generateContentStream := ex_generation_down \<rparr>) ex_request
        model_cache_init =
     (NextResponse_json
        [(''error'', ''The AI service is currently unavailable. Please try again later.'')] 503,
      ex_cache,
      [ListModels, GenerateContentStream (js ''gemini-1.5-pro-latest''),
       GenerateContentStream (js ''gemini-1.5-flash-latest''),
       GenerateContentStream (js ''gemini-2.0-flash'')])"
proof -
  let ?ms = "[\<lparr> r_role = User, r_content = js ''reverse a string'', r_image = None \<rparr>]"
  let ?down = "ex_env\<lparr> env_generateContentStream := ex_generation_down \<rparr>"
  have key: "env_apiKey ex_env = Some (js ''key'')" "js ''key'' \<noteq> []"
    by (simp_all add: ex_env_def js_def)
  have key': "env_apiKey ?down = Some (js ''key'')" by (simp add: ex_env_def)
  have msgs: "?ms \<noteq> []" by simp
  have resolved': "getAvailableModels (env_listing ?down) (env_now ?down) model_cache_init =
     (Inr ex_candidates, ex_cache, [ListModels])"
    using ex_resolved by simp
  have first: "ex_candidates = [js ''gemini-1.5-pro-latest''] @ js ''gemini-1.5-flash-latest''
                  # [js ''gemini-2.0-flash''] \<and>
      (\<forall>m \<in> set [js ''gemini-1.5-pro-latest''].
          \<exists>e. env_generateContentStream ex_env m (buildGeminiContents ?ms) = Inl e) \<and>
      env_generateContentStream ex_env (js ''gemini-1.5-flash-latest'') (buildGeminiContents ?ms)
        = Inr \<lparr> u_texts = [js ''ab'', [], js ''c''], u_fails = False \<rparr>"
    by (simp add: ex_candidates_def ex_env_def ex_generation_def js_def)
  have down: "ex_candidates \<noteq> [] \<and>
      (\<forall>m \<in> set ex_candidates.
          \<exists>e. env_generateContentStream ?down m (buildGeminiContents ?ms) = Inl e)"
    by (simp add: ex_candidates_def ex_generation_down_def)
  have enc: "map TextEncoder_encode (filter (\<lambda>text. text \<noteq> []) [js ''ab'', [], js ''c''])
               = [[0x61, 0x62], [0x63]]"
    by (simp add: TextEncoder_encode_def utf8_encode_code_point_def js_def
          is_lead_surrogate_def is_trail_surrogate_def)
  from POST_fallback_order [OF key msgs ex_resolved,
         of "[js ''gemini-1.5-pro-latest'']" "js ''gemini-1.5-flash-latest''"
            "[js ''gemini-2.0-flash'']" "\<lparr> u_texts = [js ''ab'', [], js ''c''], u_fails = False \<rparr>"]
       first
  have A: "POST ex_env ex_request model_cache_init =
     (\<lparr> res_status = 200,
        res_headers =
          [(''Content-Type'', ''text/plain; charset=utf-8''),
           (''Cache-Control'',
            ''no-store, no-cache, must-revalidate, proxy-revalidate, max-age=0, no-transform''),
           (''Pragma'', ''no-cache''),
           (''Expires'', ''0'')],
        res_body = StreamBody \<lparr> chunks = [[0x61, 0x62], [0x63]], errored = False \<rparr> \<rparr>,
      ex_cache,
      [ListModels, GenerateContentStream (js ''gemini-1.5-pro-latest''),
       GenerateContentStream (js ''gemini-1.5-flash-latest'')])"
    unfolding ex_request_def using enc by simp
  from POST_fallback_order [OF key'  key(2) msgs resolved'] down
  have B: "POST ?down ex_request model_cache_init =
     (NextResponse_json
        [(''error'', ''The AI service is currently unavailable. Please try again later.'')] 503,
      ex_cache,
      [ListModels, GenerateContentStream (js ''gemini-1.5-pro-latest''),
       GenerateContentStream (js ''gemini-1.5-flash-latest''),
       GenerateContentStream (js ''gemini-2.0-flash'')])"
    unfolding ex_request_def by (simp add: ex_candidates_def)
  from A B show ?thesis by simp
qed

section \<open>The UTF-8 decoder on encoded scalar values\<close>

lemma utf8_run_append:
  "utf8_run d (xs @ ys) =
     (fst (utf8_run (fst (utf8_run d xs)) ys),
      snd (utf8_run d xs) @ snd (utf8_run (fst (utf8_run d xs)) ys))"
  by (induction xs arbitrary: d) (simp_all add: Let_def case_prod_beta)



































section \<open>Streaming into the placeholder\<close>

lemma serialize_append:
  "serialize seen (a @ b) =
     (fst (serialize (fst (serialize seen a)) b),
      snd (serialize seen a) @ snd (serialize (fst (serialize seen a)) b))"
  by (cases a; cases b) (auto simp: serialize_def Let_def)

lemma decode_stream:
  "decode td bs True =
     (td\<lparr> decoder := fst (utf8_run (if do_not_flush td then decoder td else utf8_decoder_new) bs),
          bom_seen := fst (serialize (do_not_flush td \<and> bom_seen td)
                        (snd (utf8_run (if do_not_flush td then decoder td else utf8_decoder_new) bs))),
          do_not_flush := True \<rparr>,
      snd (serialize (do_not_flush td \<and> bom_seen td)
             (snd (utf8_run (if do_not_flush td then decoder td else utf8_decoder_new) bs))))"
  by (simp add: decode_def Let_def case_prod_beta)

text \<open>Decoding in streaming mode does not depend on where the input is cut.\<close>

lemma decode_stream_append:
  "decode td (xs @ ys) True =
     (fst (decode (fst (decode td xs True)) ys True),
      snd (decode td xs True) @ snd (decode (fst (decode td xs True)) ys True))"
  by (simp add: decode_stream utf8_run_append serialize_append)

text \<open>Decoding with a flush adds U+FFFD for a sequence that the input leaves open.\<close>

lemma decode_flush:
  "snd (decode TextDecoder_new bs False) =
     snd (decode TextDecoder_new bs True) @
     (if bytes_needed (fst (utf8_run utf8_decoder_new bs)) \<noteq> 0 then [0xFFFD] else [])"
  by (simp add: decode_def TextDecoder_new_def Let_def case_prod_beta utf8_end_of_queue_def
        serialize_append) (simp add: serialize_def code_point_units_def)


lemma read_loop_text:
  "fst (snd (read_loop sub clock i cs (td, full, st))) =
     full @ snd (decode td (concat cs) True) \<and>
   (cs \<noteq> [] \<longrightarrow> fst (read_loop sub clock i cs (td, full, st)) = fst (decode td (concat cs) True))"
proof (induction cs arbitrary: i td full st)
  case Nil
  show ?case by (simp add: decode_stream serialize_def)
next
  case (Cons c cs)
  have step: "on_chunk sub (clock i) c (td, full, st) =
      (fst (decode td c True), full @ snd (decode td c True),
       upsertChat (s_chatId sub)
         (setAssistantContent (m_id (s_assistantMessage sub)) (full @ snd (decode td c True))
            (clock i)) st)"
    by (simp add: on_chunk_def case_prod_beta Let_def)
  have e: "cs = [] \<Longrightarrow> decode td (c @ concat cs) True = decode td c True" by simp
  show ?case
    using Cons.IH [of "Suc i" "fst (decode td c True)" "full @ snd (decode td c True)"]
    by (cases "cs = []") (simp_all add: step decode_stream_append)
qed





lemma sendMessage_streaming:
  assumes "sendMessage_submit userId assistantId (clock 0) st = Some (sub, st2)"
  shows "sendMessage userId assistantId clock (ChatResponse True (Some stream)) st =
           (let (decoder, fullAssistantText, st') =
                  read_loop sub clock 1 (chunks stream) (TextDecoder_new, [], st2)
            in (if errored stream
                then on_failure sub ''Something went wrong while generating a response.''
                       (clock (Suc (length (chunks stream)))) st'
                else st')\<lparr> isStreaming := False \<rparr>)"
  using assms by (simp add: sendMessage_def Let_def case_prod_beta)

text \<open>The body that the gateway streams is a list of encoded strings.\<close>

lemma createStreamResponse_body:
  assumes "createStreamResponse gen messages modelName = Inr res"
  shows "\<exists>texts fails. res_body res =
           StreamBody \<lparr> chunks = map TextEncoder_encode texts, errored = fails \<rparr>"
  using assms by (auto simp: createStreamResponse_def split: sum.splits)


text \<open>
  For arbitrary bytes the loop's text is the streaming decoding of the concatenation; the
  full decoding has one more U+FFFD exactly when the bytes end inside a sequence, since
  the loop does not flush the decoder.
\<close>

lemma read_loop_full_decoding:
  assumes "read_loop sub clock i cs (TextDecoder_new, [], st) = (td', full', st')"
  shows "full' = snd (decode TextDecoder_new (concat cs) True) \<and>
         snd (decode TextDecoder_new (concat cs) False) =
           full' @ (if bytes_needed (fst (utf8_run utf8_decoder_new (concat cs))) \<noteq> 0
                    then [0xFFFD] else [])"
proof -
  have acc: "full' = snd (decode TextDecoder_new (concat cs) True)"
    using read_loop_text [of sub clock i cs TextDecoder_new "[]" st] assms by simp
  show ?thesis unfolding acc by (simp add: decode_flush)
qed



section \<open>Updates of an in-flight submission\<close>

lemma content_update_nth:
  assumes "i < length (chats st)"
  shows "chats (upsertChat cid (setAssistantContent aid text now) st) ! i =
           (if c_id (chats st ! i) = cid
            then (chats st ! i)\<lparr> c_messages :=
                    map (\<lambda>message. if m_id message = aid
                                    then message\<lparr> m_content := text \<rparr> else message)
                        (c_messages (chats st ! i)),
                  c_updatedAt := now \<rparr>
            else chats st ! i)"
  using assms by (simp add: upsertChat_def setAssistantContent_def)

lemma content_update_frame:
  assumes "st' = upsertChat cid (setAssistantContent aid text now) st"
  shows "length (chats st') = length (chats st) \<and>
         (\<forall>i < length (chats st).
            (c_id (chats st ! i) \<noteq> cid \<longrightarrow> chats st' ! i = chats st ! i) \<and>
            (c_id (chats st ! i) = cid \<longrightarrow>
               c_id (chats st' ! i) = c_id (chats st ! i) \<and>
               c_title (chats st' ! i) = c_title (chats st ! i) \<and>
               c_createdAt (chats st' ! i) = c_createdAt (chats st ! i) \<and>
               length (c_messages (chats st' ! i)) = length (c_messages (chats st ! i)) \<and>
               (\<forall>j < length (c_messages (chats st ! i)).
                  (m_id (c_messages (chats st ! i) ! j) \<noteq> aid \<longrightarrow>
                     c_messages (chats st' ! i) ! j = c_messages (chats st ! i) ! j) \<and>
                  (m_id (c_messages (chats st ! i) ! j) = aid \<longrightarrow>
                     c_messages (chats st' ! i) ! j =
                       (c_messages (chats st ! i) ! j)\<lparr> m_content := text \<rparr>))))"
proof (intro conjI allI impI)
  show "length (chats st') = length (chats st)"
    by (simp add: assms upsertChat_def)
next
  fix i assume "i < length (chats st)" "c_id (chats st ! i) \<noteq> cid"
  then show "chats st' ! i = chats st ! i"
    by (simp add: assms content_update_nth)
next
  fix i assume i: "i < length (chats st)" "c_id (chats st ! i) = cid"
  then have eq: "chats st' ! i =
      (chats st ! i)\<lparr> c_messages :=
          map (\<lambda>message. if m_id message = aid then message\<lparr> m_content := text \<rparr> else message)
              (c_messages (chats st ! i)),
        c_updatedAt := now \<rparr>"
    by (simp add: assms content_update_nth)
  show "c_id (chats st' ! i) = c_id (chats st ! i)" by (simp add: eq)
  show "c_title (chats st' ! i) = c_title (chats st ! i)" by (simp add: eq)
  show "c_createdAt (chats st' ! i) = c_createdAt (chats st ! i)" by (simp add: eq)
  show "length (c_messages (chats st' ! i)) = length (c_messages (chats st ! i))"
    by (simp add: eq)
  fix j assume j: "j < length (c_messages (chats st ! i))"
  { assume "m_id (c_messages (chats st ! i) ! j) \<noteq> aid"
    then show "c_messages (chats st' ! i) ! j = c_messages (chats st ! i) ! j"
      using j by (simp add: eq) }
  { assume "m_id (c_messages (chats st ! i) ! j) = aid"
    then show "c_messages (chats st' ! i) ! j =
                 (c_messages (chats st ! i) ! j)\<lparr> m_content := text \<rparr>"
      using j by (simp add: eq) }
qed

text \<open>
  Claim C8: every content update of a submission, for a chunk or for a failure, goes to
  the chat whose id the submission captured and, there, to the messages with the
  placeholder's id, which get the new content. Every chat with another id is left as it
  is, and so is every message with another id; the chat's id, title and creation time and
  the active chat are not touched. Which chat is active when the update arrives plays no
  part: after \<open>selectChat\<close> the update gives the same chats.
\<close>

theorem submission_updates_frame:
  assumes "(st', content) =
             (snd (snd (on_chunk sub now value (td, full, st))),
              full @ snd (decode td value True)) \<or>
           (st', content) = (on_failure sub fallback now st, js fallback)"
  shows "activeChatId st' = activeChatId st \<and>
         length (chats st') = length (chats st) \<and>
         (\<forall>i < length (chats st).
            (c_id (chats st ! i) \<noteq> s_chatId sub \<longrightarrow> chats st' ! i = chats st ! i) \<and>
            (c_id (chats st ! i) = s_chatId sub \<longrightarrow>
               c_id (chats st' ! i) = c_id (chats st ! i) \<and>
               c_title (chats st' ! i) = c_title (chats st ! i) \<and>
               c_createdAt (chats st' ! i) = c_createdAt (chats st ! i) \<and>
               length (c_messages (chats st' ! i)) = length (c_messages (chats st ! i)) \<and>
               (\<forall>j < length (c_messages (chats st ! i)).
                  (m_id (c_messages (chats st ! i) ! j) \<noteq> m_id (s_assistantMessage sub) \<longrightarrow>
                     c_messages (chats st' ! i) ! j = c_messages (chats st ! i) ! j) \<and>
                  (m_id (c_messages (chats st ! i) ! j) = m_id (s_assistantMessage sub) \<longrightarrow>
                     c_messages (chats st' ! i) ! j =
                       (c_messages (chats st ! i) ! j)\<lparr> m_content := content \<rparr>)))) \<and>
         chats (snd (snd (on_chunk sub now value (td, full, selectChat other st)))) =
           chats (snd (snd (on_chunk sub now value (td, full, st)))) \<and>
         chats (on_failure sub fallback now (selectChat other st)) =
           chats (on_failure sub fallback now st)"
proof -
  from assms obtain st0 where
    upd: "st' = upsertChat (s_chatId sub)
                  (setAssistantContent (m_id (s_assistantMessage sub)) content now) st0"
    and same: "chats st0 = chats st" "activeChatId st0 = activeChatId st"
  proof
    assume "(st', content) =
             (snd (snd (on_chunk sub now value (td, full, st))),
              full @ snd (decode td value True))"
    then have "st' = upsertChat (s_chatId sub)
                  (setAssistantContent (m_id (s_assistantMessage sub)) content now) st"
      by (simp add: on_chunk_def case_prod_beta Let_def)
    then show ?thesis using that by blast
  next
    assume "(st', content) = (on_failure sub fallback now st, js fallback)"
    then have "st' = upsertChat (s_chatId sub)
                  (setAssistantContent (m_id (s_assistantMessage sub)) content now)
                  (st\<lparr> errorMessage := js fallback \<rparr>)"
      by (simp add: on_failure_def)
    then show ?thesis using that [of "st\<lparr> errorMessage := js fallback \<rparr>"] by simp
  qed
  have active: "activeChatId st' = activeChatId st"
    by (simp add: upd upsertChat_def same)
  have sel1: "chats (snd (snd (on_chunk sub now value (td, full, selectChat other st)))) =
           chats (snd (snd (on_chunk sub now value (td, full, st))))"
    by (simp add: on_chunk_def case_prod_beta Let_def upsertChat_def selectChat_def)
  have sel2: "chats (on_failure sub fallback now (selectChat other st)) =
           chats (on_failure sub fallback now st)"
    by (simp add: on_failure_def upsertChat_def selectChat_def)
  from content_update_frame [OF upd] active sel1 sel2 show ?thesis
    unfolding same by blast
qed

theorem submission_updates_frame_witness:
  "chats (snd (snd (on_chunk ex_sub 7 [0x41] (TextDecoder_new, [], ex_streaming)))) ! 1
     = chats ex_streaming ! 1 \<and>
   c_messages (chats (snd (snd (on_chunk ex_sub 7 [0x41] (TextDecoder_new, [], ex_streaming)))) ! 0)
     ! 0 = c_messages (chats ex_streaming ! 0) ! 0 \<and>
   c_messages (chats (snd (snd (on_chunk ex_sub 7 [0x41] (TextDecoder_new, [], ex_streaming)))) ! 0)
     ! 1 = \<lparr> m_id = js ''a1'', m_role = Assistant, m_content = [0x41], m_image = None \<rparr> \<and>
   activeChatId (snd (snd (on_chunk ex_sub 7 [0x41] (TextDecoder_new, [], ex_streaming))))
     = js ''c2'' \<and>
   chats (on_failure ex_sub ''Failed to stream response from API.'' 7 ex_streaming) ! 1
     = chats ex_streaming ! 1 \<and>
   c_messages (chats (on_failure ex_sub ''Failed to stream response from API.'' 7 ex_streaming) ! 0)
     ! 1 = \<lparr> m_id = js ''a1'', m_role = Assistant,
             m_content = js ''Failed to stream response from API.'', m_image = None \<rparr>"
proof -
  let ?st' = "snd (snd (on_chunk ex_sub 7 [0x41] (TextDecoder_new, [], ex_streaming)))"
  let ?st'' = "on_failure ex_sub ''Failed to stream response from API.'' 7 ex_streaming"
  have dec: "snd (decode TextDecoder_new [0x41] True) = [0x41]"
    by (simp add: decode_def TextDecoder_new_def utf8_decoder_new_def utf8_handler_def
          utf8_lead_def serialize_def code_point_units_def Let_def)
  have h: "(?st', [] @ snd (decode TextDecoder_new [0x41] True)) =
             (snd (snd (on_chunk ex_sub 7 [0x41] (TextDecoder_new, [], ex_streaming))),
              [] @ snd (decode TextDecoder_new [0x41] True)) \<or>
           (?st', [] @ snd (decode TextDecoder_new [0x41] True)) =
             (on_failure ex_sub [] 7 ex_streaming, js [])"
    by simp
  have h': "(?st'', js ''Failed to stream response from API.'') =
             (snd (snd (on_chunk ex_sub 7 [] (TextDecoder_new, [], ex_streaming))),
              [] @ snd (decode TextDecoder_new [] True)) \<or>
           (?st'', js ''Failed to stream response from API.'') =
             (on_failure ex_sub ''Failed to stream response from API.'' 7 ex_streaming,
              js ''Failed to stream response from API.'')"
    by simp
  note fr = submission_updates_frame [OF h]
  note fr' = submission_updates_frame [OF h']
  from fr have a: "activeChatId ?st' = activeChatId ex_streaming" by blast
  from fr have
    c: "\<forall>i < length (chats ex_streaming).
            (c_id (chats ex_streaming ! i) \<noteq> s_chatId ex_sub \<longrightarrow>
               chats ?st' ! i = chats ex_streaming ! i) \<and>
            (c_id (chats ex_streaming ! i) = s_chatId ex_sub \<longrightarrow>
               (\<forall>j < length (c_messages (chats ex_streaming ! i)).
                  (m_id (c_messages (chats ex_streaming ! i) ! j) \<noteq> m_id (s_assistantMessage ex_sub) \<longrightarrow>
                     c_messages (chats ?st' ! i) ! j = c_messages (chats ex_streaming ! i) ! j) \<and>
                  (m_id (c_messages (chats ex_streaming ! i) ! j) = m_id (s_assistantMessage ex_sub) \<longrightarrow>
                     c_messages (chats ?st' ! i) ! j =
                       (c_messages (chats ex_streaming ! i) ! j)
                         \<lparr> m_content := [] @ snd (decode TextDecoder_new [0x41] True) \<rparr>)))"
    by blast
  from fr' have
    c': "\<forall>i < length (chats ex_streaming).
            (c_id (chats ex_streaming ! i) \<noteq> s_chatId ex_sub \<longrightarrow>
               chats ?st'' ! i = chats ex_streaming ! i) \<and>
            (c_id (chats ex_streaming ! i) = s_chatId ex_sub \<longrightarrow>
               (\<forall>j < length (c_messages (chats ex_streaming ! i)).
                  (m_id (c_messages (chats ex_streaming ! i) ! j) = m_id (s_assistantMessage ex_sub) \<longrightarrow>
                     c_messages (chats ?st'' ! i) ! j =
                       (c_messages (chats ex_streaming ! i) ! j)
                         \<lparr> m_content := js ''Failed to stream response from API.'' \<rparr>)))"
    by blast
  have c1: "chats ?st' ! 1 = chats ex_streaming ! 1"
    using c [rule_format, of 1] by (simp add: ex_streaming_def ex_sub_def js_def)
  have c0: "\<forall>j < length (c_messages (chats ex_streaming ! 0)).
                  (m_id (c_messages (chats ex_streaming ! 0) ! j) \<noteq> m_id (s_assistantMessage ex_sub) \<longrightarrow>
                     c_messages (chats ?st' ! 0) ! j = c_messages (chats ex_streaming ! 0) ! j) \<and>
                  (m_id (c_messages (chats ex_streaming ! 0) ! j) = m_id (s_assistantMessage ex_sub) \<longrightarrow>
                     c_messages (chats ?st' ! 0) ! j =
                       (c_messages (chats ex_streaming ! 0) ! j)
                         \<lparr> m_content := [] @ snd (decode TextDecoder_new [0x41] True) \<rparr>)"
    using c [rule_format, of 0] by (simp add: ex_streaming_def ex_sub_def js_def)
  have m0: "c_messages (chats ?st' ! 0) ! 0 = c_messages (chats ex_streaming ! 0) ! 0"
    using c0 [rule_format, of 0] by (simp add: ex_streaming_def ex_sub_def js_def)
  have m1: "c_messages (chats ?st' ! 0) ! 1 =
              \<lparr> m_id = js ''a1'', m_role = Assistant, m_content = [0x41], m_image = None \<rparr>"
    using c0 [rule_format, of 1] by (simp add: ex_streaming_def ex_sub_def js_def dec)
  from a have a': "activeChatId ?st' = js ''c2''" by (simp add: ex_streaming_def)
  have f1: "chats ?st'' ! 1 = chats ex_streaming ! 1"
    using c' [rule_format, of 1] by (simp add: ex_streaming_def ex_sub_def js_def)
  have f0: "\<forall>j < length (c_messages (chats ex_streaming ! 0)).
                  (m_id (c_messages (chats ex_streaming ! 0) ! j) = m_id (s_assistantMessage ex_sub) \<longrightarrow>
                     c_messages (chats ?st'' ! 0) ! j =
                       (c_messages (chats ex_streaming ! 0) ! j)
                         \<lparr> m_content := js ''Failed to stream response from API.'' \<rparr>)"
    using c' [rule_format, of 0] by (simp add: ex_streaming_def ex_sub_def js_def)
  have fm: "c_messages (chats ?st'' ! 0) ! 1 =
              \<lparr> m_id = js ''a1'', m_role = Assistant,
                m_content = js ''Failed to stream response from API.'', m_image = None \<rparr>"
    using f0 [rule_format, of 1] by (simp add: ex_streaming_def ex_sub_def)
  from c1 m0 m1 a' f1 fm show ?thesis by simp
qed

end
